theory Spec2Isabelle
  imports Main
begin

section \<open>The Sphinx configuration module \<open>content/conf.py\<close>\<close>

text \<open>
  \<open>conf.py\<close> is a Python module that Sphinx executes once per build. Executing it binds
  a set of module-level names (the configuration values), inserts one entry into
  \<open>sys.path\<close>, and defines the hook \<open>setup(app)\<close>, which Sphinx calls afterwards with
  the application object. The module is embedded as a function \<open>load\<close> from the host
  process to the resulting module namespace, and the hook as a function on the state it
  can reach.
\<close>

subsection \<open>The host process\<close>

text \<open>
  What the module reads from the interpreter: \<open>os.environ\<close>, the module's \<open>__file__\<close>
  (the field \<open>conf_file\<close>), \<open>sys.path\<close> and four functions of \<open>os.path\<close>. The
  \<open>os.path\<close> functions belong to the Python standard library and depend on the file
  system, so they are parameters of the host and every theorem holds for whatever they
  compute.
\<close>

type_synonym environment = "string \<rightharpoonup> string"

record host =
  environ :: environment
  conf_file :: string
  abspath :: "string \<Rightarrow> string"
  dirname :: "string \<Rightarrow> string"
  realpath :: "string \<Rightarrow> string"
  basename :: "string \<Rightarrow> string"
  sys_path :: "string list"

text \<open>\<open>os.environ.get(key, default)\<close>: the value bound to the key, the default when unset.\<close>

definition environ_get :: "environment \<Rightarrow> string \<Rightarrow> string \<Rightarrow> string" where
  "environ_get env key dflt = (case env key of None \<Rightarrow> dflt | Some v \<Rightarrow> v)"

text \<open>Python's \<open>a or b\<close> on strings: \<open>a\<close> when it is non-empty (truthy), otherwise \<open>b\<close>.\<close>

definition py_or :: "string \<Rightarrow> string \<Rightarrow> string" where
  "py_or a b = (if a \<noteq> [] then a else b)"

subsection \<open>The module namespace\<close>

text \<open>The values of \<open>html_context\<close> are a boolean and strings.\<close>

datatype pyval = PyBool bool | PyStr string

text \<open>
  A subclass of \<open>_BaseCRDirective\<close> as the module declares it: its name and the one class
  attribute its body sets.
\<close>

record directive_class =
  cls_name :: string
  extra_classes :: "string list"

text \<open>An entry of \<open>html_js_files\<close>: a URL paired with a dictionary of attributes.\<close>

type_synonym js_file = "string \<times> (string \<times> string) list"

text \<open>
  The names bound once the module has run. \<open>html_js_files\<close> is bound only inside a
  conditional, so the field is optional: \<open>None\<close> is a namespace without the name,
  \<open>Some []\<close> would be the name bound to an empty list.
\<close>

record conf =
  project :: string
  copyright :: string
  author :: string
  github_user :: string
  github_repo_name :: string
  github_version :: string
  conf_py_path :: string
  extensions :: "string list"
  jupyter_execute_notebooks :: string
  exclude_patterns :: "string list"
  html_theme :: string
  html_logo :: string
  html_favicon :: string
  html_title :: string
  html_static_path :: "string list"
  html_context :: "(string \<times> pyval) list"
  todo_include_todos :: bool
  TypealongDirective :: directive_class
  ParametersDirective :: directive_class
  DemoDirective :: directive_class
  DIRECTIVES :: "directive_class list"
  html_js_files :: "js_file list option"

subsection \<open>Executing the module\<close>

text \<open>
  \<open>load\<close> follows the module top to bottom: the \<open>sys.path.insert(0, ...)\<close>, the
  assignments in their order (so \<open>html_title\<close> reads \<open>project\<close> and \<open>html_context\<close> reads
  the \<open>github_*\<close> names), the three class statements, and the conditional on
  \<open>GITHUB_REF\<close> at the end of the file. It returns the namespace and the host with its
  extended \<open>sys.path\<close>. The \<open>import\<close> statements bind modules and functions of the host and
  are not part of the namespace record. \<open>load\<close> is the run that reaches the end of the
  file; \<open>exec_module\<close> below adds the statements at which a run can raise.
\<close>

definition load :: "host \<Rightarrow> conf \<times> host" where
  "load h =
    (let h' = h\<lparr>sys_path := abspath h ''.'' # sys_path h\<rparr>;
         v_project = ''Julia for High-Performance Scientific Computing'';
         v_copyright = ''2022, EuroCC National Competence Center Sweden'';
         v_author = ''Kjartan Thor Wikfeldt'';
         v_github_user = ''enccs'';
         v_github_repo_name = ''Julia-for-HPC'';
         v_github_version = ''master'';
         v_conf_py_path = ''/content/'';
         v_Typealong = \<lparr>cls_name = ''TypealongDirective'',
                        extra_classes = [''toggle-shown'', ''dropdown'']\<rparr>;
         v_Parameters = \<lparr>cls_name = ''ParametersDirective'',
                         extra_classes = [''dropdown'']\<rparr>;
         v_Demo = \<lparr>cls_name = ''DemoDirective'',
                   extra_classes = [''toggle-shown'', ''dropdown'']\<rparr>
     in (\<lparr>project = v_project,
          copyright = v_copyright,
          author = v_author,
          github_user = v_github_user,
          github_repo_name = v_github_repo_name,
          github_version = v_github_version,
          conf_py_path = v_conf_py_path,
          extensions = [''sphinx.ext.githubpages'', ''sphinx_lesson'', ''sphinx.ext.todo''],
          jupyter_execute_notebooks = ''cache'',
          exclude_patterns = [''code*'', ''README*'', ''_build'', ''Thumbs.db'', ''.DS_Store'',
                              ''jupyter_execute'', ''*venv*''],
          html_theme = ''sphinx_rtd_theme'',
          html_logo = ''img/ENCCS.jpg'',
          html_favicon = ''img/favicon.ico'',
          html_title = v_project,
          html_static_path = [''css''],
          html_context =
            [(''display_github'', PyBool True),
             (''github_user'', PyStr v_github_user),
             (''github_repo'',
                PyStr (py_or v_github_repo_name (basename h' (dirname h' (realpath h' (conf_file h')))))),
             (''github_version'', PyStr v_github_version),
             (''conf_py_path'', PyStr v_conf_py_path)],
          todo_include_todos = True,
          TypealongDirective = v_Typealong,
          ParametersDirective = v_Parameters,
          DemoDirective = v_Demo,
          DIRECTIVES = [v_Typealong, v_Parameters, v_Demo],
          html_js_files =
            (if environ_get (environ h') ''GITHUB_REF'' '''' = ''refs/heads/main''
             then Some [(''https://plausible.io/js/script.js'',
                         [(''data-domain'', ''enccs.github.io/julia-for-hpc''),
                          (''defer'', ''defer'')])]
             else None)\<rparr>,
         h'))"

subsection \<open>Runs that raise\<close>

text \<open>
  \<open>load\<close> is a run of the module that reaches its last line. A run can stop before: an
  \<open>import\<close> statement raises when its module, or the name taken from it, cannot be
  imported, and \<open>os.path.abspath\<close> is a call into the host that may raise. What they
  raise is given by the interpreter, as the \<open>os.path\<close> functions are. The statements in
  between bind literals; \<open>os.environ.get\<close> is a lookup with a default and has no failing
  case; the right operand of \<open>or\<close> in \<open>html_context\<close> is not evaluated, the left one being
  non-empty, so the three \<open>os.path\<close> functions there are never called.
\<close>

datatype py_error = ImportError | OSError




subsection \<open>The application object and the hook\<close>

text \<open>
  The part of the Sphinx application the hook can register assets with: the stylesheets
  and the scripts registered so far, in registration order.
\<close>

record sphinx_app =
  css_files :: "string list"
  js_files :: "js_file list"

text \<open>
  Modelled from the spec: \<open>app.add_css_file\<close> is a method of the Sphinx application,
  which the module calls and does not define. The specification says of the call that it
  "registers one stylesheet asset"; the model appends the file name to the registered
  stylesheets and touches nothing else.
\<close>

definition add_css_file :: "sphinx_app \<Rightarrow> string \<Rightarrow> sphinx_app" where
  "add_css_file app filename = app\<lparr>css_files := css_files app @ [filename]\<rparr>"

text \<open>
  A Python function can read and write the process state and the globals of its module
  besides its argument, so the hook is a function on all three: the host process, the
  module namespace produced by \<open>load\<close>, and the application passed as \<open>app\<close>.
\<close>

record build =
  proc :: host
  globals :: conf
  app :: sphinx_app

text \<open>
  \<open>setup(app)\<close>, here \<open>setup_hook\<close> (\<open>setup\<close> is a reserved word of the theory
  language): its body is the single call \<open>app.add_css_file("overrides.css")\<close>. The
  statements after it in the file are at module level and belong to \<open>load\<close>.
\<close>

definition setup_hook :: "build \<Rightarrow> build" where
  "setup_hook b = b\<lparr>app := add_css_file (app b) ''overrides.css''\<rparr>"

subsection \<open>Example hosts\<close>

text \<open>
  A checkout of the repository on a build machine, with \<open>GITHUB_REF\<close> unset (\<open>None\<close>)
  or set to the given value. The \<open>os.path\<close> functions are given by what they return on
  the paths the module passes to them.
\<close>

definition example_host :: "string option \<Rightarrow> host" where
  "example_host ref =
    \<lparr>environ = (\<lambda>key. if key = ''GITHUB_REF'' then ref else None),
     conf_file = ''/work/julia-for-hpc/content/conf.py'',
     abspath = (\<lambda>p. ''/work/julia-for-hpc/content''),
     dirname = (\<lambda>p. ''/work/julia-for-hpc/content''),
     realpath = (\<lambda>p. p),
     basename = (\<lambda>p. ''content''),
     sys_path = [''/usr/lib/python3'']\<rparr>"

text \<open>The same environment in another process: another directory, another \<open>sys.path\<close>.\<close>

definition relocated_host :: "string option \<Rightarrow> host" where
  "relocated_host ref =
    (example_host ref)
      \<lparr>conf_file := ''/tmp/lesson/conf.py'',
       abspath := (\<lambda>p. ''/tmp/lesson''),
       dirname := (\<lambda>p. ''/tmp/lesson''),
       basename := (\<lambda>p. ''lesson''),
       sys_path := []\<rparr>"

text \<open>
  The state in which Sphinx calls the hook: the module has been loaded in the example
  host, and nothing has been registered with the application yet.
\<close>

definition example_build :: "string option \<Rightarrow> build" where
  "example_build ref =
    \<lparr>proc = snd (load (example_host ref)),
     globals = fst (load (example_host ref)),
     app = \<lparr>css_files = [], js_files = []\<rparr>\<rparr>"



section \<open>Properties of loading the module\<close>

text \<open>
  C1. In every environment where \<open>GITHUB_REF\<close> is unset, or set to a value other than
  \<open>refs/heads/main\<close>, loading the module leaves \<open>html_js_files\<close> unbound: the
  configuration carries no analytics script reference.
\<close>

theorem js_files_absent_unless_main:
  assumes "environ h ''GITHUB_REF'' \<noteq> Some ''refs/heads/main''"
  shows "html_js_files (fst (load h)) = None"
proof (cases "environ h ''GITHUB_REF''")
  case None
  then show ?thesis
    by (simp add: load_def Let_def environ_get_def)
next
  case (Some v)
  with assms have "v \<noteq> ''refs/heads/main''"
    by simp
  with Some show ?thesis
    by (simp add: load_def Let_def environ_get_def)
qed

theorem js_files_absent_unless_main_witness:
  "html_js_files (fst (load (example_host None))) = None
   \<and> html_js_files (fst (load (example_host (Some ''refs/heads/master'')))) = None
   \<and> html_js_files (fst (load (example_host (Some [])))) = None"
proof -
  have unset: "environ (example_host None) ''GITHUB_REF'' \<noteq> Some ''refs/heads/main''"
    by (simp add: example_host_def)
  have master:
    "environ (example_host (Some ''refs/heads/master'')) ''GITHUB_REF'' \<noteq> Some ''refs/heads/main''"
    by (simp add: example_host_def)
  have blank: "environ (example_host (Some [])) ''GITHUB_REF'' \<noteq> Some ''refs/heads/main''"
    by (simp add: example_host_def)
  show ?thesis
    using js_files_absent_unless_main [OF unset] js_files_absent_unless_main [OF master]
      js_files_absent_unless_main [OF blank]
    by simp
qed

text \<open>
  C2. \<open>html_js_files\<close> is bound to the analytics script reference exactly when
  \<open>GITHUB_REF\<close> is set to the string \<open>refs/heads/main\<close>: the comparison is equality of
  strings, so a prefix, an extension or a change of case does not count. When bound, it
  is the one entry for \<open>https://plausible.io/js/script.js\<close> whose attribute dictionary has
  the two items \<open>data-domain = enccs.github.io/julia-for-hpc\<close> and \<open>defer = defer\<close>.
\<close>

theorem js_files_present_iff_main:
  "(environ h ''GITHUB_REF'' = Some ''refs/heads/main'') \<longleftrightarrow>
   (html_js_files (fst (load h)) =
      Some [(''https://plausible.io/js/script.js'',
             [(''data-domain'', ''enccs.github.io/julia-for-hpc''), (''defer'', ''defer'')])])"
proof (cases "environ h ''GITHUB_REF''")
  case None
  then show ?thesis
    by (simp add: load_def Let_def environ_get_def)
next
  case (Some v)
  then show ?thesis
    by (simp add: load_def Let_def environ_get_def)
qed

theorem js_files_present_iff_main_witness:
  "html_js_files (fst (load (example_host (Some ''refs/heads/main'')))) =
      Some [(''https://plausible.io/js/script.js'',
             [(''data-domain'', ''enccs.github.io/julia-for-hpc''), (''defer'', ''defer'')])]
   \<and> html_js_files (fst (load (example_host (Some ''refs/heads/main/'')))) \<noteq>
      Some [(''https://plausible.io/js/script.js'',
             [(''data-domain'', ''enccs.github.io/julia-for-hpc''), (''defer'', ''defer'')])]
   \<and> html_js_files (fst (load (example_host (Some ''refs/heads/mai'')))) \<noteq>
      Some [(''https://plausible.io/js/script.js'',
             [(''data-domain'', ''enccs.github.io/julia-for-hpc''), (''defer'', ''defer'')])]
   \<and> html_js_files (fst (load (example_host (Some ''Refs/Heads/Main'')))) \<noteq>
      Some [(''https://plausible.io/js/script.js'',
             [(''data-domain'', ''enccs.github.io/julia-for-hpc''), (''defer'', ''defer'')])]"
proof -
  have main: "environ (example_host (Some ''refs/heads/main'')) ''GITHUB_REF'' = Some ''refs/heads/main''"
    by (simp add: example_host_def)
  have longer:
    "environ (example_host (Some ''refs/heads/main/'')) ''GITHUB_REF'' \<noteq> Some ''refs/heads/main''"
    by (simp add: example_host_def)
  have shorter:
    "environ (example_host (Some ''refs/heads/mai'')) ''GITHUB_REF'' \<noteq> Some ''refs/heads/main''"
    by (simp add: example_host_def)
  have capitals:
    "environ (example_host (Some ''Refs/Heads/Main'')) ''GITHUB_REF'' \<noteq> Some ''refs/heads/main''"
    by (simp add: example_host_def)
  show ?thesis
    using main longer shorter capitals
      js_files_present_iff_main [of "example_host (Some ''refs/heads/main'')"]
      js_files_present_iff_main [of "example_host (Some ''refs/heads/main/'')"]
      js_files_present_iff_main [of "example_host (Some ''refs/heads/mai'')"]
      js_files_present_iff_main [of "example_host (Some ''Refs/Heads/Main'')"]
    by blast
qed

text \<open>
  C5. Loading is a function of the environment alone. Loading a second time, in the
  process the first load left behind (its \<open>sys.path\<close> one entry longer), gives the same
  value for every configuration variable; so does loading in any other process with the
  same environment, whatever its working directory, module path and \<open>sys.path\<close>.
\<close>

theorem load_deterministic:
  "fst (load (snd (load h))) = fst (load h)
   \<and> (environ h' = environ h \<longrightarrow> fst (load h') = fst (load h))"
  by (simp add: load_def Let_def py_or_def)

theorem load_deterministic_witness:
  "environ (relocated_host (Some ''refs/heads/main'')) = environ (example_host (Some ''refs/heads/main''))
   \<and> sys_path (relocated_host (Some ''refs/heads/main'')) \<noteq> sys_path (example_host (Some ''refs/heads/main''))
   \<and> fst (load (relocated_host (Some ''refs/heads/main''))) = fst (load (example_host (Some ''refs/heads/main'')))
   \<and> sys_path (snd (load (example_host (Some ''refs/heads/main'')))) \<noteq> sys_path (example_host (Some ''refs/heads/main''))
   \<and> fst (load (snd (load (example_host (Some ''refs/heads/main''))))) = fst (load (example_host (Some ''refs/heads/main'')))"
proof -
  let ?h = "example_host (Some ''refs/heads/main'')"
  let ?h' = "relocated_host (Some ''refs/heads/main'')"
  have env: "environ ?h' = environ ?h"
    by (simp add: relocated_host_def)
  have paths: "sys_path ?h' \<noteq> sys_path ?h"
    by (simp add: relocated_host_def example_host_def)
  have grown: "sys_path (snd (load ?h)) \<noteq> sys_path ?h"
    by (simp add: load_def Let_def)
  from load_deterministic [of ?h ?h'] env
  have "fst (load (snd (load ?h))) = fst (load ?h)" and "fst (load ?h') = fst (load ?h)"
    by simp_all
  with env paths grown show ?thesis
    by simp
qed

text \<open>
  C6. After loading, in every host, the metadata are the strings the module assigns:
  project, author, copyright, repository owner, repository name and branch; and the HTML
  title is the project name.
\<close>

theorem metadata_fixed:
  "project (fst (load h)) = ''Julia for High-Performance Scientific Computing''
   \<and> author (fst (load h)) = ''Kjartan Thor Wikfeldt''
   \<and> copyright (fst (load h)) = ''2022, EuroCC National Competence Center Sweden''
   \<and> github_user (fst (load h)) = ''enccs''
   \<and> github_repo_name (fst (load h)) = ''Julia-for-HPC''
   \<and> github_version (fst (load h)) = ''master''
   \<and> html_title (fst (load h)) = project (fst (load h))"
  by (simp add: load_def Let_def)

text \<open>
  C8. The repository name is the non-empty string \<open>Julia-for-HPC\<close>, so the \<open>or\<close> in
  \<open>html_context\<close> yields it whatever the fallback expression would compute: in every
  host, wherever the module file lies, \<open>html_context["github_repo"]\<close> is
  \<open>Julia-for-HPC\<close>.
\<close>

theorem github_repo_never_autodetected:
  "github_repo_name (fst (load h)) \<noteq> []
   \<and> py_or (github_repo_name (fst (load h))) fallback = ''Julia-for-HPC''
   \<and> map_of (html_context (fst (load h))) ''github_repo'' = Some (PyStr ''Julia-for-HPC'')"
  by (simp add: load_def Let_def py_or_def)




text \<open>
  C10. Each of the three directive classes has the tag \<open>dropdown\<close> in its
  \<open>extra_classes\<close>. \<open>TypealongDirective\<close> and \<open>DemoDirective\<close> have the same list,
  \<open>["toggle-shown", "dropdown"]\<close>; the list of \<open>ParametersDirective\<close> is \<open>["dropdown"]\<close>,
  without \<open>toggle-shown\<close>. \<open>DIRECTIVES\<close> lists the three classes in this order.
\<close>

theorem directive_tags:
  "''dropdown'' \<in> set (extra_classes (TypealongDirective (fst (load h))))
   \<and> ''dropdown'' \<in> set (extra_classes (ParametersDirective (fst (load h))))
   \<and> ''dropdown'' \<in> set (extra_classes (DemoDirective (fst (load h))))
   \<and> extra_classes (TypealongDirective (fst (load h))) = [''toggle-shown'', ''dropdown'']
   \<and> extra_classes (DemoDirective (fst (load h))) = [''toggle-shown'', ''dropdown'']
   \<and> extra_classes (TypealongDirective (fst (load h))) = extra_classes (DemoDirective (fst (load h)))
   \<and> extra_classes (ParametersDirective (fst (load h))) = [''dropdown'']
   \<and> ''toggle-shown'' \<notin> set (extra_classes (ParametersDirective (fst (load h))))
   \<and> DIRECTIVES (fst (load h)) =
       [TypealongDirective (fst (load h)), ParametersDirective (fst (load h)),
        DemoDirective (fst (load h))]"
  by (simp add: load_def Let_def)

section \<open>Properties of the directive classes\<close>

text \<open>
  C3. Each of the three directive classes has a non-empty list of tags, the same in every
  host. \<open>ParametersDirective\<close> differs in its tag set from the other two, so the three
  sets are not all equal; \<open>TypealongDirective\<close> and \<open>DemoDirective\<close> have the same tag
  set and differ in their names only.
\<close>

theorem directive_tag_sets:
  "extra_classes (TypealongDirective (fst (load h))) \<noteq> []
   \<and> extra_classes (ParametersDirective (fst (load h))) \<noteq> []
   \<and> extra_classes (DemoDirective (fst (load h))) \<noteq> []
   \<and> map extra_classes (DIRECTIVES (fst (load h))) = map extra_classes (DIRECTIVES (fst (load h')))
   \<and> set (extra_classes (ParametersDirective (fst (load h))))
        \<noteq> set (extra_classes (TypealongDirective (fst (load h))))
   \<and> set (extra_classes (ParametersDirective (fst (load h))))
        \<noteq> set (extra_classes (DemoDirective (fst (load h))))
   \<and> set (extra_classes (TypealongDirective (fst (load h))))
        = set (extra_classes (DemoDirective (fst (load h))))
   \<and> cls_name (TypealongDirective (fst (load h))) \<noteq> cls_name (DemoDirective (fst (load h)))"
  by (simp add: load_def Let_def)

text \<open>
  The three tag sets are not pairwise distinct: in the example host, two different
  classes, \<open>TypealongDirective\<close> and \<open>DemoDirective\<close>, have the same tag set.
\<close>

theorem tag_sets_not_pairwise_distinct:
  "cls_name (TypealongDirective (fst (load (example_host None))))
     \<noteq> cls_name (DemoDirective (fst (load (example_host None))))
   \<and> set (extra_classes (TypealongDirective (fst (load (example_host None)))))
     = set (extra_classes (DemoDirective (fst (load (example_host None)))))"
  by (simp add: load_def Let_def)

section \<open>Properties of the hook\<close>

text \<open>
  C4. The hook has one effect: it registers the stylesheet \<open>overrides.css\<close>,
  unconditionally. It registers no script and does not depend on the host process, so it
  does not read \<open>GITHUB_REF\<close>. The analytics script reference is decided when the module
  is loaded: \<open>html_js_files\<close> is bound to the one entry with its fixed attributes if
  \<open>GITHUB_REF\<close> is \<open>refs/heads/main\<close>, and is unbound otherwise.
\<close>

theorem hook_registers_stylesheet_only:
  "setup_hook b = b\<lparr>app := (app b)\<lparr>css_files := css_files (app b) @ [''overrides.css'']\<rparr>\<rparr>
   \<and> js_files (app (setup_hook b)) = js_files (app b)
   \<and> setup_hook (b\<lparr>proc := p\<rparr>) = (setup_hook b)\<lparr>proc := p\<rparr>
   \<and> html_js_files (fst (load h)) =
        (if environ_get (environ h) ''GITHUB_REF'' '''' = ''refs/heads/main''
         then Some [(''https://plausible.io/js/script.js'',
                     [(''data-domain'', ''enccs.github.io/julia-for-hpc''), (''defer'', ''defer'')])]
         else None)"
  by (simp add: setup_hook_def add_css_file_def load_def Let_def)

text \<open>
  The hook does not register the script where \<open>GITHUB_REF\<close> is \<open>refs/heads/main\<close>: called
  in that environment on an application with nothing registered, it leaves the registered
  scripts empty.
\<close>

theorem hook_registers_no_script:
  "environ_get (environ (proc (example_build (Some ''refs/heads/main'')))) ''GITHUB_REF'' ''''
     = ''refs/heads/main''
   \<and> js_files (app (setup_hook (example_build (Some ''refs/heads/main'')))) = []
   \<and> css_files (app (setup_hook (example_build (Some ''refs/heads/main'')))) = [''overrides.css'']"
  by (simp add: setup_hook_def add_css_file_def example_build_def example_host_def load_def Let_def
      environ_get_def)

text \<open>
  C7. The hook leaves the module namespace, the host process and the registered scripts
  as they were, whatever they were; in particular project, author, extensions, exclude
  patterns, HTML context, static path and the tag lists of the three directive classes
  are the same before and after.
\<close>

theorem hook_frame:
  "globals (setup_hook b) = globals b
   \<and> proc (setup_hook b) = proc b
   \<and> js_files (app (setup_hook b)) = js_files (app b)
   \<and> project (globals (setup_hook b)) = project (globals b)
   \<and> author (globals (setup_hook b)) = author (globals b)
   \<and> extensions (globals (setup_hook b)) = extensions (globals b)
   \<and> exclude_patterns (globals (setup_hook b)) = exclude_patterns (globals b)
   \<and> html_context (globals (setup_hook b)) = html_context (globals b)
   \<and> html_static_path (globals (setup_hook b)) = html_static_path (globals b)
   \<and> extra_classes (TypealongDirective (globals (setup_hook b)))
        = extra_classes (TypealongDirective (globals b))
   \<and> extra_classes (ParametersDirective (globals (setup_hook b)))
        = extra_classes (ParametersDirective (globals b))
   \<and> extra_classes (DemoDirective (globals (setup_hook b)))
        = extra_classes (DemoDirective (globals b))"
  by (simp add: setup_hook_def add_css_file_def)

end
